theory Spec2Isabelle
  imports Complex_Main
begin

text \<open>
  A shallow embedding of the pagination engine, the authentication service and the bank
  and colour services of the POS and warehouse API, with the properties their
  specification states. Services are functions from the environment of a call and the
  store to an error or a result with the new store. The store itself fails only where
  a unique constraint rejects a row, and every service writes to it only after its
  last check, so an error leaves the store as it was.
\<close>

section \<open>JavaScript values used by the pagination engine\<close>

text \<open>
  A query field of type \<open>number | string | undefined\<close>. \<open>Num n\<close> stands for an
  integer-valued JavaScript number whose \<open>String(n)\<close> is its plain decimal expansion
  (below \<open>10^21\<close> in magnitude, and exact, so below \<open>2^53\<close>); fractional numbers,
  \<open>NaN\<close> and the infinities are not inputs of this model. Strings are lists of
  8-bit code units (Latin-1).
\<close>

datatype jsval = Undefined | Num int | Str string

text \<open>Truthiness, as used by \<open>v || d\<close>.\<close>

fun truthy :: "jsval \<Rightarrow> bool" where
  "truthy Undefined = False"
| "truthy (Num n) = (n \<noteq> 0)"
| "truthy (Str s) = (s \<noteq> [])"

definition js_or :: "jsval \<Rightarrow> jsval \<Rightarrow> jsval" where
  "js_or v d = (if truthy v then v else d)"

text \<open>Decimal digits of a natural number, most significant first.\<close>

fun natDigits :: "nat \<Rightarrow> string" where
  "natDigits n =
     (if n < 10 then [char_of (48 + n)]
      else natDigits (n div 10) @ [char_of (48 + n mod 10)])"

declare natDigits.simps [simp del]

text \<open>\<open>String(v)\<close>.\<close>

fun String_js :: "jsval \<Rightarrow> string" where
  "String_js Undefined = ''undefined''"
| "String_js (Num n) = (if n < 0 then CHR ''-'' # natDigits (nat (- n)) else natDigits (nat n))"
| "String_js (Str s) = s"

text \<open>
  \<open>parseInt(s)\<close> with no radix argument (ECMAScript \<open>parseInt\<close>): leading white space
  is skipped, one sign is read, a \<open>0x\<close>/\<open>0X\<close> prefix selects radix 16, the longest
  prefix of digits of the radix is converted, and anything after it is ignored.
  \<open>None\<close> is \<open>NaN\<close> (no digit was found). The result is the exact integer; the
  rounding of a value beyond \<open>2^53\<close> to a double is not modelled.
\<close>

definition isWhiteSpace :: "char \<Rightarrow> bool" where
  "isWhiteSpace c = ((of_char c :: nat) \<in> set [9, 10, 11, 12, 13, 32, 160])"

definition digitValue :: "char \<Rightarrow> nat" where
  "digitValue c =
     (let n = (of_char c :: nat) in
      if 48 \<le> n \<and> n \<le> 57 then n - 48
      else if 97 \<le> n \<and> n \<le> 122 then n - 87
      else if 65 \<le> n \<and> n \<le> 90 then n - 55
      else 36)"

definition isRadixDigit :: "nat \<Rightarrow> char \<Rightarrow> bool" where
  "isRadixDigit R c = (digitValue c < R)"

definition radixValue :: "nat \<Rightarrow> string \<Rightarrow> nat" where
  "radixValue R ds = foldl (\<lambda>acc c. acc * R + digitValue c) 0 ds"

fun stripSign :: "string \<Rightarrow> int \<times> string" where
  "stripSign [] = (1, [])"
| "stripSign (c # cs) =
     (if c = CHR ''-'' then (- 1, cs)
      else if c = CHR ''+'' then (1, cs)
      else (1, c # cs))"

fun stripPrefix :: "string \<Rightarrow> nat \<times> string" where
  "stripPrefix (c # d # cs) =
     (if c = CHR ''0'' \<and> (d = CHR ''x'' \<or> d = CHR ''X'') then (16, cs) else (10, c # d # cs))"
| "stripPrefix cs = (10, cs)"

definition parseInt :: "string \<Rightarrow> int option" where
  "parseInt inputString =
     (let S = dropWhile isWhiteSpace inputString;
          (sign, S1) = stripSign S;
          (R, S2) = stripPrefix S1;
          Z = takeWhile (isRadixDigit R) S2
      in if Z = [] then None else Some (sign * int (radixValue R Z)))"

section \<open>Pagination engine (src/utils/pagination.ts)\<close>

record PaginationParams =
  q_page :: jsval
  q_limit :: jsval
  q_sortBy :: "string option"
  q_sortOrder :: "string option"
  q_search :: "string option"

record PaginationOptions =
  o_page :: int
  o_limit :: int
  o_skip :: int
  o_sortBy :: string
  o_sortOrder :: string

definition parsePaginationParams :: "PaginationParams \<Rightarrow> string \<Rightarrow> int \<Rightarrow> PaginationOptions" where
  "parsePaginationParams query defaultSortBy maxLimit =
     (let page0 = parseInt (String_js (js_or (q_page query) (Num 1)));
          page = (case page0 of None \<Rightarrow> 1 | Some p \<Rightarrow> if p < 1 then 1 else p);
          limit0 = parseInt (String_js (js_or (q_limit query) (Num 10)));
          limit1 = (case limit0 of None \<Rightarrow> 10 | Some l \<Rightarrow> if l < 1 then 10 else l);
          limit = (if limit1 > maxLimit then maxLimit else limit1);
          skip = (page - 1) * limit;
          sortOrder = (if q_sortOrder query = Some ''asc'' \<or> q_sortOrder query = Some ''desc''
                       then the (q_sortOrder query) else ''desc'');
          sortBy = (case q_sortBy query of None \<Rightarrow> defaultSortBy
                    | Some s \<Rightarrow> if s = [] then defaultSortBy else s)
      in \<lparr> o_page = page, o_limit = limit, o_skip = skip,
           o_sortBy = sortBy, o_sortOrder = sortOrder \<rparr>)"

text \<open>
  The reading of a supplied query value that the specification speaks of: the integer it
  denotes, \<open>None\<close> when the value is absent or non-numeric.
\<close>

definition suppliedInt :: "jsval \<Rightarrow> int option" where
  "suppliedInt v = (case v of Undefined \<Rightarrow> None | Num n \<Rightarrow> Some n | Str s \<Rightarrow> parseInt s)"

text \<open>
  A JavaScript number that is the result of \<open>Math.ceil(total / limit)\<close> on integer
  arguments: a finite integer, or what division by zero gives.
\<close>

datatype jsnum = Finite int | PosInfinity | NegInfinity | NaN

definition ceil_div :: "int \<Rightarrow> int \<Rightarrow> jsnum" where
  "ceil_div totl limit =
     (if limit \<noteq> 0 then Finite (- ((- totl) div limit))
      else if totl > 0 then PosInfinity
      else if totl < 0 then NegInfinity
      else NaN)"

fun js_less :: "int \<Rightarrow> jsnum \<Rightarrow> bool" where
  "js_less p (Finite t) = (p < t)"
| "js_less p PosInfinity = True"
| "js_less p NegInfinity = False"
| "js_less p NaN = False"

record PaginationMetadata =
  m_page :: int
  m_limit :: int
  m_total :: int
  m_totalPages :: jsnum
  m_hasNext :: bool
  m_hasPrev :: bool

definition createMetadata :: "int \<Rightarrow> int \<Rightarrow> int \<Rightarrow> PaginationMetadata" where
  "createMetadata page limit totl =
     (let totalPages = ceil_div totl limit
      in \<lparr> m_page = page, m_limit = limit, m_total = totl, m_totalPages = totalPages,
           m_hasNext = js_less page totalPages, m_hasPrev = (page > 1) \<rparr>)"

record 'a PaginatedResult =
  r_data :: "'a list"
  r_pagination :: PaginationMetadata

definition createPaginatedResult :: "'a list \<Rightarrow> int \<Rightarrow> int \<Rightarrow> int \<Rightarrow> 'a PaginatedResult" where
  "createPaginatedResult data page limit totl =
     \<lparr> r_data = data, r_pagination = createMetadata page limit totl \<rparr>"

section \<open>Errors (customErrors)\<close>

text \<open>
  The typed errors of the services. \<open>ValidationError\<close> carries its message and its
  field-level details (the empty list when it has none). \<open>JsError\<close> is a plain
  \<open>Error\<close>, \<open>PrismaError\<close> a rejection by the store.
\<close>

datatype error =
    ValidationError string "(string \<times> string) list"
  | AuthenticationError string
  | NotFoundError string
  | ConflictError string
  | JsError string
  | PrismaError string

section \<open>Password utility (src/utils/password.ts)\<close>

text \<open>
  Modelled from the spec: the bcrypt library behind \<open>PasswordUtils\<close> is not part of the
  sources. Its contract is the one the spec states: the digest is salted, a plaintext
  verifies against its own digest and no other plaintext does. A digest is therefore the
  pair of the salt drawn and the plaintext committed to. Plaintexts are passwords
  (strings) and refresh tokens. Any limit of the real library on the length of the
  input is outside this contract.
\<close>

datatype 'a hashed = Hashed nat 'a

definition hashPassword :: "nat \<Rightarrow> 'a \<Rightarrow> 'a hashed" where
  "hashPassword slt plainPassword = Hashed slt plainPassword"

fun verifyPassword :: "'a \<Rightarrow> 'a hashed \<Rightarrow> bool" where
  "verifyPassword plainPassword (Hashed slt p) = (plainPassword = p)"

definition isLower :: "char \<Rightarrow> bool" where
  "isLower c = (97 \<le> (of_char c :: nat) \<and> (of_char c :: nat) \<le> 122)"

definition isUpper :: "char \<Rightarrow> bool" where
  "isUpper c = (65 \<le> (of_char c :: nat) \<and> (of_char c :: nat) \<le> 90)"

definition isDigit :: "char \<Rightarrow> bool" where
  "isDigit c = (48 \<le> (of_char c :: nat) \<and> (of_char c :: nat) \<le> 57)"

definition isSpecial :: "char \<Rightarrow> bool" where
  "isSpecial c = (c \<in> set (''!@#$%^&*(),.?'' @ [CHR 0x22] @ '':{}|<>''))"

text \<open>\<open>errors.join(', ')\<close>.\<close>

fun join :: "string \<Rightarrow> string list \<Rightarrow> string" where
  "join sep [] = []"
| "join sep [x] = x"
| "join sep (x # y # ys) = x @ sep @ join sep (y # ys)"

definition validatePasswordStrength :: "string \<Rightarrow> bool \<times> string list" where
  "validatePasswordStrength password =
     (let errors =
            (if length password < 8 then [''Password must be at least 8 characters long''] else [])
          @ (if \<not> list_ex isLower password
             then [''Password must contain at least one lowercase letter''] else [])
          @ (if \<not> list_ex isUpper password
             then [''Password must contain at least one uppercase letter''] else [])
          @ (if \<not> list_ex isDigit password
             then [''Password must contain at least one number''] else [])
          @ (if \<not> list_ex isSpecial password
             then [''Password must contain at least one special character''] else [])
      in (errors = [], errors))"

section \<open>Token utility (JwtUtils)\<close>

datatype RoleEnum =
    ANGGOTA | HEAD_KANTOR | KASIR | OWNER | PIMPINAN | SALES
  | STAFF_KANTOR | STAFF_INVENTORY | STAFF_WAREHOUSE | SUPER_ADMIN

record JwtPayload =
  p_userId :: int
  p_email :: string
  p_role :: RoleEnum
  p_code :: string

text \<open>
  Modelled from the spec: the jsonwebtoken library is not part of the sources. The spec
  asks for signed tokens that carry the payload \<open>{userId, email, role, code}\<close> and
  expire after a configured window. A token is the record of what \<open>jwt.sign\<close> signs:
  the key, the issuer and audience options, the payload, the second of issue and the
  second of expiry. As in the library, time is counted in whole seconds and the
  signature is a function of what is signed, so two calls in the same second with the
  same payload and window give the same token. \<open>jwt.verify\<close> accepts a token exactly
  when key, issuer and audience are the expected ones and the expiry lies in the
  future.
\<close>

record token =
  t_key :: string
  t_iss :: string
  t_aud :: string
  t_payload :: JwtPayload
  t_iat :: nat
  t_exp :: nat

record TokenPair =
  accessToken :: token
  refreshToken :: token

text \<open>
  What a call reads from outside the store: the configuration (\<open>process.env\<close>), the
  clock in seconds, the salt bcrypt draws, and the keys the store generates for a new
  row (\<open>uuid()\<close> for a refresh-token row, the autoincrement value for the others).
\<close>

record env =
  JWT_SECRET :: string
  JWT_EXPIRES_IN :: nat
  JWT_REFRESH_EXPIRES_IN :: nat
  now :: nat
  salt :: nat
  uuid :: string
  autoId :: int

definition jwt_sign :: "JwtPayload \<Rightarrow> string \<Rightarrow> nat \<Rightarrow> nat \<Rightarrow> token" where
  "jwt_sign payload secret expiresIn clock =
     \<lparr> t_key = secret, t_iss = ''pos-warehouse-api'', t_aud = ''pos-warehouse-client'',
       t_payload = payload, t_iat = clock, t_exp = clock + expiresIn \<rparr>"

definition jwt_verify :: "token \<Rightarrow> string \<Rightarrow> nat \<Rightarrow> bool" where
  "jwt_verify tok secret clock =
     (t_key tok = secret \<and> t_iss tok = ''pos-warehouse-api''
      \<and> t_aud tok = ''pos-warehouse-client'' \<and> clock < t_exp tok)"

definition generateAccessToken :: "env \<Rightarrow> JwtPayload \<Rightarrow> error + token" where
  "generateAccessToken e payload =
     (if JWT_SECRET e = [] then Inl (JsError ''JWT_SECRET is not defined in environment variables'')
      else Inr (jwt_sign payload (JWT_SECRET e) (JWT_EXPIRES_IN e) (now e)))"

definition generateRefreshToken :: "env \<Rightarrow> JwtPayload \<Rightarrow> error + token" where
  "generateRefreshToken e payload =
     (if JWT_SECRET e = [] then Inl (JsError ''JWT_SECRET is not defined in environment variables'')
      else Inr (jwt_sign payload (JWT_SECRET e) (JWT_REFRESH_EXPIRES_IN e) (now e)))"

definition generateTokenPair :: "env \<Rightarrow> JwtPayload \<Rightarrow> error + TokenPair" where
  "generateTokenPair e payload =
     (case generateAccessToken e payload of
        Inl err \<Rightarrow> Inl err
      | Inr a \<Rightarrow>
          (case generateRefreshToken e payload of
             Inl err \<Rightarrow> Inl err
           | Inr r \<Rightarrow> Inr \<lparr> accessToken = a, refreshToken = r \<rparr>))"

text \<open>
  Every rejection by \<open>jwt.verify\<close> is a \<open>JsonWebTokenError\<close> or one of its subclasses,
  so the first branch of the handler catches it.
\<close>

definition verifyToken :: "env \<Rightarrow> token \<Rightarrow> error + JwtPayload" where
  "verifyToken e tok =
     (if JWT_SECRET e = [] then Inl (AuthenticationError ''Token verification failed'')
      else if jwt_verify tok (JWT_SECRET e) (now e) then Inr (t_payload tok)
      else Inl (AuthenticationError ''Invalid token''))"

section \<open>The store (prisma/schema.prisma)\<close>

record User =
  u_id :: int
  u_role :: RoleEnum
  u_code :: string
  u_name :: string
  u_email :: string
  u_username :: string
  u_phone :: string
  u_address :: "string option"
  u_password :: "string hashed"
  u_expenseLimit :: "int option"
  u_discountLimit :: "int option"
  u_point :: "int option"
  u_balance :: "int option"
  u_createdAt :: nat
  u_updatedAt :: nat

record UserRefreshToken =
  rt_id :: string
  rt_hashedToken :: "token hashed"
  rt_userId :: int
  rt_revoked :: bool
  rt_createdAt :: nat
  rt_updatedAt :: nat

record Bank =
  b_id :: int
  b_code :: string
  b_name :: string
  b_createdAt :: nat
  b_updatedAt :: nat

record AccountNumber =
  an_id :: int
  an_bankCode :: string
  an_ownerCode :: string
  an_accountName :: string
  an_accountNumber :: string

record Color =
  c_id :: int
  c_code :: string
  c_name :: string
  c_createdAt :: nat
  c_updatedAt :: nat

text \<open>
  A table is the list of its rows in the order the store returns them; \<open>findFirst\<close>
  and \<open>findUnique\<close> return the first row that satisfies the filter, an update keeps
  the place of a row, a create appends.
\<close>

record db =
  users :: "User list"
  userRefreshTokens :: "UserRefreshToken list"
  banks :: "Bank list"
  accountNumbers :: "AccountNumber list"
  colors :: "Color list"

section \<open>Authentication service (src/services/authService.ts)\<close>

record RegisterRequest =
  rq_email :: string
  rq_password :: string
  rq_name :: string
  rq_username :: string
  rq_phone :: string
  rq_role :: RoleEnum
  rq_address :: "string option"
  rq_code :: string
  rq_expenseLimit :: "int option"
  rq_discountLimit :: "int option"

text \<open>The user as the services return it: the \<open>select\<close> clause names every column but the password.\<close>

record UserResponse =
  ur_id :: int
  ur_email :: string
  ur_name :: string
  ur_username :: string
  ur_phone :: string
  ur_role :: RoleEnum
  ur_address :: "string option"
  ur_code :: string
  ur_expenseLimit :: "int option"
  ur_discountLimit :: "int option"
  ur_point :: "int option"
  ur_balance :: "int option"
  ur_createdAt :: nat
  ur_updatedAt :: nat

definition selectUser :: "User \<Rightarrow> UserResponse" where
  "selectUser u =
     \<lparr> ur_id = u_id u, ur_email = u_email u, ur_name = u_name u, ur_username = u_username u,
       ur_phone = u_phone u, ur_role = u_role u, ur_address = u_address u, ur_code = u_code u,
       ur_expenseLimit = u_expenseLimit u, ur_discountLimit = u_discountLimit u,
       ur_point = u_point u, ur_balance = u_balance u,
       ur_createdAt = u_createdAt u, ur_updatedAt = u_updatedAt u \<rparr>"

text \<open>\<open>x || 0\<close> on an optional number.\<close>

definition or_zero :: "int option \<Rightarrow> int" where
  "or_zero v = (case v of None \<Rightarrow> 0 | Some n \<Rightarrow> if n = 0 then 0 else n)"

text \<open>
  \<open>prisma.user.create\<close>: the unique constraints on \<open>code\<close>, \<open>email\<close>, \<open>username\<close> and
  \<open>phone\<close> reject a colliding row (error code P2002). The generated keys (\<open>autoId\<close>,
  \<open>uuid\<close>) are the store's own and are not checked again.
\<close>

definition prisma_user_create :: "db \<Rightarrow> User \<Rightarrow> error + db" where
  "prisma_user_create st u =
     (if list_ex (\<lambda>x. u_code x = u_code u \<or> u_email x = u_email u
                       \<or> u_username x = u_username u \<or> u_phone x = u_phone u) (users st)
      then Inl (PrismaError ''P2002'')
      else Inr (st\<lparr> users := users st @ [u] \<rparr>))"

definition register :: "env \<Rightarrow> db \<Rightarrow> RegisterRequest \<Rightarrow> error + (UserResponse \<times> db)" where
  "register e st userData =
     (let existingUser =
            find (\<lambda>u. u_email u = rq_email userData \<or> u_username u = rq_username userData
                     \<or> u_phone u = rq_phone userData \<or> u_code u = rq_code userData) (users st);
          conflict =
            (case existingUser of
               None \<Rightarrow> None
             | Some x \<Rightarrow>
                 if u_email x = rq_email userData
                 then Some (ConflictError ''User with this email already exists'')
                 else if u_username x = rq_username userData
                 then Some (ConflictError ''Username already taken'')
                 else if u_phone x = rq_phone userData
                 then Some (ConflictError ''Phone number already registered'')
                 else if u_code x = rq_code userData
                 then Some (ConflictError ''User code already exists'')
                 else None)
      in case conflict of
           Some err \<Rightarrow> Inl err
         | None \<Rightarrow>
             (let (isValid, errors) = validatePasswordStrength (rq_password userData)
              in if \<not> isValid
                 then Inl (ValidationError ''Password does not meet requirements''
                             [(''password'', join '', '' errors)])
                 else
                   (let hashedPassword = hashPassword (salt e) (rq_password userData);
                        newUser =
                          \<lparr> u_id = autoId e, u_role = rq_role userData, u_code = rq_code userData,
                            u_name = rq_name userData, u_email = rq_email userData,
                            u_username = rq_username userData, u_phone = rq_phone userData,
                            u_address = rq_address userData, u_password = hashedPassword,
                            u_expenseLimit = Some (or_zero (rq_expenseLimit userData)),
                            u_discountLimit = Some (or_zero (rq_discountLimit userData)),
                            u_point = Some 0, u_balance = Some 0,
                            u_createdAt = now e, u_updatedAt = now e \<rparr>
                    in case prisma_user_create st newUser of
                         Inl err \<Rightarrow> Inl err
                       | Inr st' \<Rightarrow> Inr (selectUser newUser, st'))))"

record LoginRequest =
  lq_email :: string
  lq_password :: string

record LoginResponse =
  lr_user :: UserResponse
  lr_tokens :: TokenPair

definition tokenPayload :: "User \<Rightarrow> JwtPayload" where
  "tokenPayload user =
     \<lparr> p_userId = u_id user, p_email = u_email user, p_role = u_role user, p_code = u_code user \<rparr>"

text \<open>\<open>prisma.userRefreshToken.create\<close> with the column defaults of the schema.\<close>

definition newRefreshTokenRow :: "env \<Rightarrow> token hashed \<Rightarrow> int \<Rightarrow> UserRefreshToken" where
  "newRefreshTokenRow e h uid =
     \<lparr> rt_id = uuid e, rt_hashedToken = h, rt_userId = uid, rt_revoked = False,
       rt_createdAt = now e, rt_updatedAt = now e \<rparr>"

definition login :: "env \<Rightarrow> db \<Rightarrow> LoginRequest \<Rightarrow> error + (LoginResponse \<times> db)" where
  "login e st loginData =
     (case find (\<lambda>u. u_email u = lq_email loginData) (users st) of
        None \<Rightarrow> Inl (AuthenticationError ''Invalid email or password'')
      | Some user \<Rightarrow>
          if \<not> verifyPassword (lq_password loginData) (u_password user)
          then Inl (AuthenticationError ''Invalid email or password'')
          else
            (case generateTokenPair e (tokenPayload user) of
               Inl err \<Rightarrow> Inl err
             | Inr tokens \<Rightarrow>
                 (let hashedRefreshToken = hashPassword (salt e) (refreshToken tokens);
                      row = newRefreshTokenRow e hashedRefreshToken (u_id user)
                  in Inr (\<lparr> lr_user = selectUser user, lr_tokens = tokens \<rparr>,
                          st\<lparr> userRefreshTokens := userRefreshTokens st @ [row] \<rparr>))))"

text \<open>\<open>findFirst({where: {userId, revoked: false}})\<close>.\<close>

definition findFirstActive :: "db \<Rightarrow> int \<Rightarrow> UserRefreshToken option" where
  "findFirstActive st uid =
     find (\<lambda>r. rt_userId r = uid \<and> \<not> rt_revoked r) (userRefreshTokens st)"

text \<open>\<open>update({where: {id}, data: {revoked: true}})\<close>.\<close>

definition revokeById :: "env \<Rightarrow> string \<Rightarrow> UserRefreshToken list \<Rightarrow> UserRefreshToken list" where
  "revokeById e rid rows =
     map (\<lambda>r. if rt_id r = rid then r\<lparr> rt_revoked := True, rt_updatedAt := now e \<rparr> else r) rows"

text \<open>\<open>updateMany({where: {userId, revoked: false}, data: {revoked: true}})\<close>.\<close>

definition revokeAllActive :: "env \<Rightarrow> int \<Rightarrow> UserRefreshToken list \<Rightarrow> UserRefreshToken list" where
  "revokeAllActive e uid rows =
     map (\<lambda>r. if rt_userId r = uid \<and> \<not> rt_revoked r
               then r\<lparr> rt_revoked := True, rt_updatedAt := now e \<rparr> else r) rows"

text \<open>
  The body of the \<open>try\<close> block of \<open>refreshToken\<close>. The row is read together with its
  user (\<open>include\<close>); the relation is required, so a row whose user is missing makes the
  query itself fail.
\<close>

definition refreshToken_try :: "env \<Rightarrow> db \<Rightarrow> token \<Rightarrow> error + (TokenPair \<times> db)" where
  "refreshToken_try e st tok =
     (case verifyToken e tok of
        Inl err \<Rightarrow> Inl err
      | Inr decoded \<Rightarrow>
          (case findFirstActive st (p_userId decoded) of
             None \<Rightarrow> Inl (AuthenticationError ''Invalid refresh token'')
           | Some refreshTokenRecord \<Rightarrow>
               (case find (\<lambda>u. u_id u = rt_userId refreshTokenRecord) (users st) of
                  None \<Rightarrow> Inl (PrismaError ''Inconsistent query result'')
                | Some user \<Rightarrow>
                    if \<not> verifyPassword tok (rt_hashedToken refreshTokenRecord)
                    then Inl (AuthenticationError ''Invalid refresh token'')
                    else
                      (case generateTokenPair e (tokenPayload user) of
                         Inl err \<Rightarrow> Inl err
                       | Inr newTokens \<Rightarrow>
                           (let revoked = revokeById e (rt_id refreshTokenRecord)
                                            (userRefreshTokens st);
                                hashedNewRefreshToken =
                                  hashPassword (salt e) (refreshToken newTokens);
                                row = newRefreshTokenRow e hashedNewRefreshToken (u_id user)
                            in Inr (newTokens,
                                    st\<lparr> userRefreshTokens := revoked @ [row] \<rparr>))))))"

text \<open>The \<open>catch\<close> block: an AuthenticationError is rethrown, anything else is replaced.\<close>

definition refreshToken_svc :: "env \<Rightarrow> db \<Rightarrow> token \<Rightarrow> error + (TokenPair \<times> db)" where
  "refreshToken_svc e st tok =
     (case refreshToken_try e st tok of
        Inl (AuthenticationError m) \<Rightarrow> Inl (AuthenticationError m)
      | Inl _ \<Rightarrow> Inl (AuthenticationError ''Invalid or expired refresh token'')
      | Inr r \<Rightarrow> Inr r)"

text \<open>
  \<open>logout(userId, refreshToken?)\<close>. The optional token is \<open>None\<close> when it is omitted
  (or the empty string, which the test \<open>if (refreshToken)\<close> treats alike).
\<close>

definition logout :: "env \<Rightarrow> db \<Rightarrow> int \<Rightarrow> token option \<Rightarrow> error + db" where
  "logout e st userId tokOpt =
     (case tokOpt of
        Some tok \<Rightarrow>
          (case findFirstActive st userId of
             None \<Rightarrow> Inr st
           | Some refreshTokenRecord \<Rightarrow>
               if verifyPassword tok (rt_hashedToken refreshTokenRecord)
               then Inr (st\<lparr> userRefreshTokens :=
                              revokeById e (rt_id refreshTokenRecord) (userRefreshTokens st) \<rparr>)
               else Inr st)
      | None \<Rightarrow>
          Inr (st\<lparr> userRefreshTokens := revokeAllActive e userId (userRefreshTokens st) \<rparr>))"

record ChangePasswordRequest =
  currentPassword :: string
  newPassword :: string

definition changePassword :: "env \<Rightarrow> db \<Rightarrow> int \<Rightarrow> ChangePasswordRequest \<Rightarrow> error + db" where
  "changePassword e st userId passwordData =
     (case find (\<lambda>u. u_id u = userId) (users st) of
        None \<Rightarrow> Inl (NotFoundError ''User not found'')
      | Some user \<Rightarrow>
          if \<not> verifyPassword (currentPassword passwordData) (u_password user)
          then Inl (AuthenticationError ''Current password is incorrect'')
          else
            (let (isValid, errors) = validatePasswordStrength (newPassword passwordData)
             in if \<not> isValid
                then Inl (ValidationError ''New password does not meet requirements''
                            [(''password'', join '', '' errors)])
                else if verifyPassword (newPassword passwordData) (u_password user)
                then Inl (ValidationError
                            ''New password must be different from current password'' [])
                else
                  (let hashedNewPassword = hashPassword (salt e) (newPassword passwordData);
                       st1 = st\<lparr> users :=
                                  map (\<lambda>u. if u_id u = userId
                                            then u\<lparr> u_password := hashedNewPassword,
                                                   u_updatedAt := now e \<rparr>
                                            else u) (users st) \<rparr>
                   in Inr (st1\<lparr> userRefreshTokens :=
                                  revokeAllActive e userId (userRefreshTokens st1) \<rparr>))))"

definition revokeAllTokens :: "env \<Rightarrow> db \<Rightarrow> int \<Rightarrow> error + db" where
  "revokeAllTokens e st userId =
     Inr (st\<lparr> userRefreshTokens := revokeAllActive e userId (userRefreshTokens st) \<rparr>)"

section \<open>Bank and color services\<close>






definition getBankById :: "db \<Rightarrow> int \<Rightarrow> Bank option" where
  "getBankById st bid = find (\<lambda>b. b_id b = bid) (banks st)"

definition getBankByCode :: "db \<Rightarrow> string \<Rightarrow> Bank option" where
  "getBankByCode st code = find (\<lambda>b. b_code b = code) (banks st)"

definition deleteBank :: "db \<Rightarrow> int \<Rightarrow> error + db" where
  "deleteBank st bid =
     (case find (\<lambda>b. b_id b = bid) (banks st) of
        None \<Rightarrow> Inl (NotFoundError ''Bank not found'')
      | Some existingBank \<Rightarrow>
          (let accountNumberCount =
                 length (filter (\<lambda>a. an_bankCode a = b_code existingBank) (accountNumbers st))
           in if accountNumberCount > 0
              then Inl (ConflictError ''Cannot delete bank. It is referenced by account numbers.'')
              else Inr (st\<lparr> banks := filter (\<lambda>b. b_id b \<noteq> bid) (banks st) \<rparr>)))"





section \<open>Example inputs\<close>

text \<open>The query of the specification's example, and one with a non-numeric limit.\<close>

definition ex_query :: PaginationParams where
  "ex_query = \<lparr> q_page = Str ''-5'', q_limit = Str ''9999'', q_sortBy = None,
                q_sortOrder = None, q_search = None \<rparr>"

definition ex_query_abc :: PaginationParams where
  "ex_query_abc = \<lparr> q_page = Str ''3'', q_limit = Str ''abc'', q_sortBy = None,
                    q_sortOrder = Some ''ASC'', q_search = None \<rparr>"

text \<open>
  A configuration and a clock, one registered user and the refresh tokens of two of
  the user's sessions: \<open>ex_tokA\<close> issued at second 1000, \<open>ex_tokC\<close> at second 1500.
\<close>

definition ex_env :: env where
  "ex_env = \<lparr> JWT_SECRET = ''s3cret'', JWT_EXPIRES_IN = 86400,
              JWT_REFRESH_EXPIRES_IN = 604800, now = 2000, salt = 7,
              uuid = ''t3'', autoId = 2 \<rparr>"

definition ex_user :: User where
  "ex_user = \<lparr> u_id = 1, u_role = KASIR, u_code = ''U01'', u_name = ''Ana'',
               u_email = ''ana@x.id'', u_username = ''ana'', u_phone = ''0811'',
               u_address = None, u_password = Hashed 1 ''Passw0rd!'',
               u_expenseLimit = Some 0, u_discountLimit = Some 0,
               u_point = Some 0, u_balance = Some 0,
               u_createdAt = 900, u_updatedAt = 900 \<rparr>"

definition ex_payload :: JwtPayload where
  "ex_payload = \<lparr> p_userId = 1, p_email = ''ana@x.id'', p_role = KASIR, p_code = ''U01'' \<rparr>"

definition ex_tokA :: token where
  "ex_tokA = \<lparr> t_key = ''s3cret'', t_iss = ''pos-warehouse-api'',
               t_aud = ''pos-warehouse-client'', t_payload = ex_payload,
               t_iat = 1000, t_exp = 605800 \<rparr>"

definition ex_tokC :: token where
  "ex_tokC = \<lparr> t_key = ''s3cret'', t_iss = ''pos-warehouse-api'',
               t_aud = ''pos-warehouse-client'', t_payload = ex_payload,
               t_iat = 1500, t_exp = 606300 \<rparr>"

definition ex_row :: "string \<Rightarrow> nat \<Rightarrow> token \<Rightarrow> nat \<Rightarrow> UserRefreshToken" where
  "ex_row rid slt tok t =
     \<lparr> rt_id = rid, rt_hashedToken = Hashed slt tok, rt_userId = 1, rt_revoked = False,
       rt_createdAt = t, rt_updatedAt = t \<rparr>"

text \<open>The user with one session, with two sessions, and with two rows for one token.\<close>

definition ex_db_one :: db where
  "ex_db_one = \<lparr> users = [ex_user], userRefreshTokens = [ex_row ''t1'' 5 ex_tokA 1000],
                 banks = [], accountNumbers = [], colors = [] \<rparr>"

definition ex_db_two :: db where
  "ex_db_two = \<lparr> users = [ex_user],
                 userRefreshTokens = [ex_row ''t1'' 5 ex_tokA 1000, ex_row ''t2'' 6 ex_tokC 1500],
                 banks = [], accountNumbers = [], colors = [] \<rparr>"

definition ex_db_dup :: db where
  "ex_db_dup = \<lparr> users = [ex_user],
                 userRefreshTokens = [ex_row ''t1'' 5 ex_tokA 1000, ex_row ''t2'' 6 ex_tokA 1000],
                 banks = [], accountNumbers = [], colors = [] \<rparr>"

definition ex_db_empty :: db where
  "ex_db_empty = \<lparr> users = [], userRefreshTokens = [], banks = [], accountNumbers = [],
                   colors = [] \<rparr>"

definition ex_register :: RegisterRequest where
  "ex_register = \<lparr> rq_email = ''budi@x.id'', rq_password = ''Rahasia#9'', rq_name = ''Budi'',
                   rq_username = ''budi'', rq_phone = ''0822'', rq_role = SALES,
                   rq_address = None, rq_code = ''U02'',
                   rq_expenseLimit = Some 500, rq_discountLimit = None \<rparr>"

definition ex_bank :: Bank where
  "ex_bank = \<lparr> b_id = 1, b_code = ''ABC'', b_name = ''Bank A'',
               b_createdAt = 100, b_updatedAt = 100 \<rparr>"

definition ex_account :: AccountNumber where
  "ex_account = \<lparr> an_id = 1, an_bankCode = ''ABC'', an_ownerCode = ''U01'',
                  an_accountName = ''Ana'', an_accountNumber = ''123'' \<rparr>"

definition ex_db_bank :: db where
  "ex_db_bank = \<lparr> users = [], userRefreshTokens = [], banks = [ex_bank],
                  accountNumbers = [], colors = [] \<rparr>"

definition ex_db_bank_used :: db where
  "ex_db_bank_used = \<lparr> users = [], userRefreshTokens = [], banks = [ex_bank],
                       accountNumbers = [ex_account], colors = [] \<rparr>"



text \<open>The row that registering \<open>ex_register\<close> under \<open>ex_env\<close> inserts.\<close>

definition ex_user2 :: User where
  "ex_user2 = \<lparr> u_id = 2, u_role = SALES, u_code = ''U02'', u_name = ''Budi'',
                u_email = ''budi@x.id'', u_username = ''budi'', u_phone = ''0822'',
                u_address = None, u_password = Hashed 7 ''Rahasia#9'',
                u_expenseLimit = Some 500, u_discountLimit = Some 0,
                u_point = Some 0, u_balance = Some 0,
                u_createdAt = 2000, u_updatedAt = 2000 \<rparr>"




definition ex_env2 :: env where
  "ex_env2 = \<lparr> JWT_SECRET = ''s3cret'', JWT_EXPIRES_IN = 86400,
               JWT_REFRESH_EXPIRES_IN = 604800, now = 3000, salt = 8,
               uuid = ''t4'', autoId = 3 \<rparr>"



definition ex_change :: ChangePasswordRequest where
  "ex_change = \<lparr> currentPassword = ''Passw0rd!'', newPassword = ''N3w-Pass!'' \<rparr>"

text \<open>The store after \<open>changePassword\<close> of the user with two sessions, under \<open>ex_env\<close>.\<close>

definition ex_db_two_changed :: db where
  "ex_db_two_changed =
     \<lparr> users = [ex_user\<lparr> u_password := Hashed 7 ''N3w-Pass!'', u_updatedAt := 2000 \<rparr>],
       userRefreshTokens =
         [(ex_row ''t1'' 5 ex_tokA 1000)\<lparr> rt_revoked := True, rt_updatedAt := 2000 \<rparr>,
          (ex_row ''t2'' 6 ex_tokC 1500)\<lparr> rt_revoked := True, rt_updatedAt := 2000 \<rparr>],
       banks = [], accountNumbers = [], colors = [] \<rparr>"

lemma natDigits_isDigit: "c \<in> set (natDigits n) \<Longrightarrow> isDigit c"
proof (induction n rule: natDigits.induct)
  case (1 n)
  show ?case
  proof (cases "n < 10")
    case True
    with "1.prems" show ?thesis
      by (simp add: natDigits.simps [of n] isDigit_def)
  next
    case False
    have "n mod 10 < 10" by simp
    with False "1.prems" "1.IH" show ?thesis
      by (auto simp add: natDigits.simps [of n] isDigit_def)
  qed
qed

lemma natDigits_nonempty: "natDigits n \<noteq> []"
  by (subst natDigits.simps) simp

lemma isDigit_digitValue: "isDigit c \<Longrightarrow> digitValue c < 10"
  by (auto simp add: isDigit_def digitValue_def Let_def)

lemma radixValue_snoc: "radixValue R (ds @ [c]) = radixValue R ds * R + digitValue c"
  by (simp add: radixValue_def)

lemma radixValue_natDigits: "radixValue 10 (natDigits n) = n"
proof (induction n rule: natDigits.induct)
  case (1 n)
  show ?case
  proof (cases "n < 10")
    case True
    then show ?thesis
      by (simp add: natDigits.simps [of n] radixValue_def digitValue_def Let_def)
  next
    case False
    have m: "n mod 10 < 10" by simp
    have "digitValue (char_of (48 + n mod 10)) = n mod 10"
      using m by (simp add: digitValue_def Let_def)
    with False "1.IH" show ?thesis
      by (simp add: natDigits.simps [of n] radixValue_snoc)
  qed
qed

lemma digits_no_space: "isDigit c \<Longrightarrow> \<not> isWhiteSpace c"
  by (auto simp add: isDigit_def isWhiteSpace_def)

lemma digits_stripSign: "ds \<noteq> [] \<Longrightarrow> isDigit (hd ds) \<Longrightarrow> stripSign ds = (1, ds)"
  by (cases ds) (auto simp add: isDigit_def)

lemma digits_stripPrefix: "\<forall>c \<in> set ds. isDigit c \<Longrightarrow> stripPrefix ds = (10, ds)"
  by (cases ds rule: stripPrefix.cases) (auto simp add: isDigit_def)

lemma parseInt_digits:
  assumes "ds \<noteq> []" and "\<forall>c \<in> set ds. isDigit c"
  shows "parseInt ds = Some (int (radixValue 10 ds))"
    and "parseInt (CHR ''-'' # ds) = Some (- int (radixValue 10 ds))"
proof -
  have hd: "isDigit (hd ds)" using assms by (cases ds) auto
  have nw: "dropWhile isWhiteSpace ds = ds"
    using assms(1) hd by (cases ds) (auto simp add: digits_no_space)
  have tw: "takeWhile (isRadixDigit 10) ds = ds"
    using assms(2) by (simp add: takeWhile_eq_all_conv isRadixDigit_def isDigit_digitValue)
  show "parseInt ds = Some (int (radixValue 10 ds))"
    using assms(1) by (simp add: parseInt_def nw digits_stripSign [OF assms(1) hd] digits_stripPrefix [OF assms(2)] tw)
  have "\<not> isWhiteSpace CHR ''-''" by (simp add: isWhiteSpace_def)
  then show "parseInt (CHR ''-'' # ds) = Some (- int (radixValue 10 ds))"
    using assms(1) by (simp add: parseInt_def digits_stripPrefix [OF assms(2)] tw)
qed

lemma parseInt_String_Num: "parseInt (String_js (Num n)) = Some n"
proof (cases "n < 0")
  case True
  then show ?thesis
    using parseInt_digits(2) [of "natDigits (nat (- n))"]
    by (simp add: natDigits_nonempty natDigits_isDigit radixValue_natDigits)
next
  case False
  then show ?thesis
    using parseInt_digits(1) [of "natDigits (nat n)"]
    by (simp add: natDigits_nonempty natDigits_isDigit radixValue_natDigits)
qed

lemma parseInt_empty: "parseInt [] = None"
  by (simp add: parseInt_def)

text \<open>What the code parses is what was supplied, with the default standing in for a falsy value.\<close>

lemma parseInt_js_or:
  "parseInt (String_js (js_or v (Num d))) =
     (case suppliedInt v of
        None \<Rightarrow> (case v of Str s \<Rightarrow> if s = [] then Some d else None | _ \<Rightarrow> Some d)
      | Some n \<Rightarrow> (case v of Num _ \<Rightarrow> if n = 0 then Some d else Some n | _ \<Rightarrow> Some n))"
proof (cases v)
  case Undefined
  then show ?thesis
    using parseInt_String_Num [of d] by (simp add: js_or_def suppliedInt_def)
next
  case (Num n)
  then show ?thesis
    using parseInt_String_Num [of d] parseInt_String_Num [of n]
    by (simp add: js_or_def suppliedInt_def)
next
  case (Str s)
  then show ?thesis
    using parseInt_String_Num [of d]
    by (cases "s = []") (auto simp add: js_or_def suppliedInt_def parseInt_empty split: option.splits)
qed

lemma page_of_supplied:
  "(case parseInt (String_js (js_or v (Num 1))) of None \<Rightarrow> 1 | Some p \<Rightarrow> if p < 1 then 1 else p) =
   (case suppliedInt v of None \<Rightarrow> (1::int) | Some n \<Rightarrow> if n < 1 then 1 else n)"
  by (simp add: parseInt_js_or split: option.splits jsval.splits)

lemma limit_of_supplied:
  "(case parseInt (String_js (js_or v (Num 10))) of None \<Rightarrow> 10 | Some l \<Rightarrow> if l < 1 then 10 else l) =
   (case suppliedInt v of None \<Rightarrow> (10::int) | Some n \<Rightarrow> if n < 1 then 10 else n)"
  by (simp add: parseInt_js_or split: option.splits jsval.splits)


section \<open>Pagination: parsing and clamping\<close>

lemma ex_query_supplied:
  "suppliedInt (q_page ex_query) = Some (- 5)"
  "suppliedInt (q_limit ex_query) = Some 9999"
  "suppliedInt (q_page ex_query_abc) = Some 3"
  "suppliedInt (q_limit ex_query_abc) = None"
  by code_simp+

text \<open>
  Claim C2, as the code has it. The page is 1 when the supplied page is absent,
  non-numeric or below 1, and the parsed integer otherwise. The limit is the parsed
  integer, or 10 when the supplied limit is absent, non-numeric or below 1, and then
  capped by \<open>maxLimit\<close>: so it is 10 for such a limit provided \<open>maxLimit\<close> is at least 10,
  and it is \<open>maxLimit\<close> whenever the parsed limit exceeds \<open>maxLimit\<close>. The skip is
  \<open>(page - 1) * limit\<close>, which is non-negative provided \<open>maxLimit\<close> is. The sort order is
  \<open>desc\<close> unless \<open>asc\<close> or \<open>desc\<close> was supplied, which are kept.
\<close>

theorem parsePaginationParams_clamps:
  "o_page (parsePaginationParams query defaultSortBy maxLimit) =
     (case suppliedInt (q_page query) of None \<Rightarrow> 1 | Some n \<Rightarrow> if n < 1 then 1 else n)
   \<and> o_limit (parsePaginationParams query defaultSortBy maxLimit) =
       min maxLimit (case suppliedInt (q_limit query) of None \<Rightarrow> 10 | Some n \<Rightarrow> if n < 1 then 10 else n)
   \<and> (10 \<le> maxLimit \<longrightarrow>
        (suppliedInt (q_limit query) = None \<or> (\<exists>n. suppliedInt (q_limit query) = Some n \<and> n < 1)) \<longrightarrow>
        o_limit (parsePaginationParams query defaultSortBy maxLimit) = 10)
   \<and> ((\<exists>n. suppliedInt (q_limit query) = Some n \<and> maxLimit < n) \<longrightarrow>
        o_limit (parsePaginationParams query defaultSortBy maxLimit) = maxLimit)
   \<and> o_skip (parsePaginationParams query defaultSortBy maxLimit) =
       (o_page (parsePaginationParams query defaultSortBy maxLimit) - 1)
         * o_limit (parsePaginationParams query defaultSortBy maxLimit)
   \<and> (0 \<le> maxLimit \<longrightarrow> 0 \<le> o_skip (parsePaginationParams query defaultSortBy maxLimit))
   \<and> o_sortOrder (parsePaginationParams query defaultSortBy maxLimit) =
       (if q_sortOrder query = Some ''asc'' then ''asc'' else ''desc'')"
proof -
  let ?r = "parsePaginationParams query defaultSortBy maxLimit"
  let ?p = "case suppliedInt (q_page query) of None \<Rightarrow> (1::int) | Some n \<Rightarrow> if n < 1 then 1 else n"
  let ?l = "case suppliedInt (q_limit query) of None \<Rightarrow> (10::int) | Some n \<Rightarrow> if n < 1 then 10 else n"
  have page: "o_page ?r = ?p"
    by (simp add: parsePaginationParams_def Let_def page_of_supplied)
  have limit: "o_limit ?r = min maxLimit ?l"
    by (simp add: parsePaginationParams_def Let_def limit_of_supplied min_def)
  have skip: "o_skip ?r = (o_page ?r - 1) * o_limit ?r"
    by (simp add: parsePaginationParams_def Let_def)
  have order: "o_sortOrder ?r = (if q_sortOrder query = Some ''asc'' then ''asc'' else ''desc'')"
    by (simp add: parsePaginationParams_def Let_def)
  have p1: "1 \<le> ?p" by (simp split: option.splits)
  have l1: "1 \<le> ?l" by (simp split: option.splits)
  have ten: "10 \<le> maxLimit \<longrightarrow>
        (suppliedInt (q_limit query) = None \<or> (\<exists>n. suppliedInt (q_limit query) = Some n \<and> n < 1)) \<longrightarrow>
        o_limit ?r = 10"
    unfolding limit by auto
  have cap: "(\<exists>n. suppliedInt (q_limit query) = Some n \<and> maxLimit < n) \<longrightarrow> o_limit ?r = maxLimit"
    unfolding limit by (auto simp add: min_def split: if_splits)
  have nonneg: "0 \<le> maxLimit \<longrightarrow> 0 \<le> o_skip ?r"
  proof
    assume "0 \<le> maxLimit"
    with l1 have "0 \<le> min maxLimit ?l" by simp
    moreover from p1 have "0 \<le> ?p - 1" by simp
    ultimately show "0 \<le> o_skip ?r"
      unfolding skip page limit by (rule_tac mult_nonneg_nonneg)
  qed
  from page limit ten cap skip nonneg order show ?thesis by blast
qed

text \<open>
  The specification's example \<open>{page: "-5", limit: "9999"}\<close> with cap 100, and a
  non-numeric limit with cap 100.
\<close>

theorem parsePaginationParams_clamps_witness:
  "(10::int) \<le> 100 \<and> (0::int) \<le> 100
   \<and> (\<exists>n. suppliedInt (q_limit ex_query) = Some n \<and> 100 < n)
   \<and> suppliedInt (q_limit ex_query_abc) = None
   \<and> o_page (parsePaginationParams ex_query ''createdAt'' 100) = 1
   \<and> o_limit (parsePaginationParams ex_query ''createdAt'' 100) = 100
   \<and> o_skip (parsePaginationParams ex_query ''createdAt'' 100) = 0
   \<and> o_sortOrder (parsePaginationParams ex_query ''createdAt'' 100) = ''desc''
   \<and> o_page (parsePaginationParams ex_query_abc ''createdAt'' 100) = 3
   \<and> o_limit (parsePaginationParams ex_query_abc ''createdAt'' 100) = 10
   \<and> 0 \<le> o_skip (parsePaginationParams ex_query_abc ''createdAt'' 100)"
proof -
  have so: "q_sortOrder ex_query = None" "q_sortOrder ex_query_abc = Some ''ASC''"
    by (simp_all add: ex_query_def ex_query_abc_def)
  show ?thesis
    using parsePaginationParams_clamps [of ex_query "''createdAt''" 100]
          parsePaginationParams_clamps [of ex_query_abc "''createdAt''" 100]
    by (simp add: ex_query_supplied so)
qed

text \<open>
  Where the claim as stated fails: with a cap below 10 a non-numeric limit does not
  give 10, and with a negative cap the skip is negative.
\<close>

theorem parsePaginationParams_counterexample:
  "suppliedInt (q_limit ex_query_abc) = None
   \<and> o_limit (parsePaginationParams ex_query_abc ''createdAt'' 5) = 5
   \<and> o_skip (parsePaginationParams ex_query_abc ''createdAt'' (- 5)) = - 10"
  by code_simp

section \<open>Pagination: result metadata\<close>

text \<open>
  Claim C3, as the code has it. For a positive limit and a non-negative total,
  \<open>totalPages\<close> is the ceiling of \<open>total / limit\<close>, \<open>hasNext\<close> is \<open>page < totalPages\<close>
  and \<open>hasPrev\<close> is \<open>page > 1\<close>, for \<open>createMetadata\<close> and for the metadata inside
  \<open>createPaginatedResult\<close>. With \<open>total = 0\<close> there are 0 pages, and \<open>hasNext\<close> is
  false provided the page is not negative.
\<close>

theorem createMetadata_correct:
  "0 < limit \<Longrightarrow> 0 \<le> totl \<Longrightarrow>
     m_totalPages (createMetadata page limit totl) = Finite \<lceil>real_of_int totl / real_of_int limit\<rceil>
   \<and> m_hasNext (createMetadata page limit totl) = (page < \<lceil>real_of_int totl / real_of_int limit\<rceil>)
   \<and> m_hasPrev (createMetadata page limit totl) = (page > 1)
   \<and> r_pagination (createPaginatedResult data page limit totl) = createMetadata page limit totl
   \<and> (totl = 0 \<longrightarrow>
        m_totalPages (createMetadata page limit totl) = Finite 0
        \<and> (0 \<le> page \<longrightarrow> \<not> m_hasNext (createMetadata page limit totl)))"
  by (simp add: createMetadata_def createPaginatedResult_def ceil_div_def ceiling_divide_eq_div)

theorem createMetadata_correct_witness:
  "(0::int) < 10 \<and> (0::int) \<le> 25 \<and> (0::int) \<le> 0 \<and> (0::int) \<le> 1
   \<and> m_totalPages (createMetadata 2 10 25) = Finite 3
   \<and> m_hasNext (createMetadata 2 10 25)
   \<and> m_hasPrev (createMetadata 2 10 25)
   \<and> m_totalPages (createMetadata 1 10 0) = Finite 0
   \<and> \<not> m_hasNext (createMetadata 1 10 0)
   \<and> \<not> m_hasPrev (createMetadata 1 10 0)"
proof -
  have a: "(0::int) < 10" and b: "(0::int) \<le> 25" and c: "(0::int) \<le> 0"
    by simp_all
  from createMetadata_correct [OF a b, of 2 "[] :: unit list"]
       createMetadata_correct [OF a c, of 1 "[] :: unit list"]
  show ?thesis by simp
qed

text \<open>Where the claim as stated fails: a negative page and no rows.\<close>

theorem createMetadata_counterexample:
  "(0::int) < 10 \<and> (0::int) \<le> 0
   \<and> m_totalPages (createMetadata (- 1) 10 0) = Finite 0
   \<and> m_hasNext (createMetadata (- 1) 10 0)"
  by (simp add: createMetadata_def ceil_div_def)

section \<open>Login: one generic error\<close>

text \<open>
  Claim C4. When no user has the e-mail address, and when the user found does not
  have the password, \<open>login\<close> raises the same error value: an AuthenticationError with
  the message \<open>Invalid email or password\<close>.
\<close>

theorem login_generic_error:
  "((\<forall>u \<in> set (users st). u_email u \<noteq> lq_email loginData) \<longrightarrow>
      login e st loginData = Inl (AuthenticationError ''Invalid email or password''))
   \<and> (\<forall>user. find (\<lambda>u. u_email u = lq_email loginData) (users st) = Some user
          \<and> \<not> verifyPassword (lq_password loginData) (u_password user) \<longrightarrow>
      login e st loginData = Inl (AuthenticationError ''Invalid email or password''))"
proof (intro conjI impI allI)
  assume "\<forall>u \<in> set (users st). u_email u \<noteq> lq_email loginData"
  then have "find (\<lambda>u. u_email u = lq_email loginData) (users st) = None"
    by (simp add: find_None_iff)
  then show "login e st loginData = Inl (AuthenticationError ''Invalid email or password'')"
    by (simp add: login_def)
next
  fix user
  assume "find (\<lambda>u. u_email u = lq_email loginData) (users st) = Some user
          \<and> \<not> verifyPassword (lq_password loginData) (u_password user)"
  then show "login e st loginData = Inl (AuthenticationError ''Invalid email or password'')"
    by (simp add: login_def)
qed

theorem login_generic_error_witness:
  "\<not> (\<exists>u \<in> set (users ex_db_one). u_email u = ''nobody@x.id'')
   \<and> login ex_env ex_db_one \<lparr> lq_email = ''nobody@x.id'', lq_password = ''Passw0rd!'' \<rparr>
       = Inl (AuthenticationError ''Invalid email or password'')
   \<and> find (\<lambda>u. u_email u = ''ana@x.id'') (users ex_db_one) = Some ex_user
   \<and> \<not> verifyPassword ''wrong'' (u_password ex_user)
   \<and> login ex_env ex_db_one \<lparr> lq_email = ''ana@x.id'', lq_password = ''wrong'' \<rparr>
       = Inl (AuthenticationError ''Invalid email or password'')"
proof -
  have a: "\<forall>u \<in> set (users ex_db_one). u_email u \<noteq> ''nobody@x.id''"
    by (simp add: ex_db_one_def ex_user_def)
  have b: "find (\<lambda>u. u_email u = ''ana@x.id'') (users ex_db_one) = Some ex_user"
    by (simp add: ex_db_one_def ex_user_def)
  have c: "\<not> verifyPassword ''wrong'' (u_password ex_user)"
    by (simp add: ex_user_def)
  from login_generic_error
         [of ex_db_one "\<lparr> lq_email = ''nobody@x.id'', lq_password = ''Passw0rd!'' \<rparr>" ex_env]
       login_generic_error
         [of ex_db_one "\<lparr> lq_email = ''ana@x.id'', lq_password = ''wrong'' \<rparr>" ex_env]
       a b c
  show ?thesis by simp
qed

section \<open>Deleting a bank\<close>

lemma find_filter_neq_None: "find (\<lambda>b. f b = k) (filter (\<lambda>b. f b \<noteq> k) xs) = None"
  by (simp add: find_None_iff)

text \<open>
  Claim C8. \<open>deleteBank\<close> raises NotFoundError when no bank has the id. When the bank
  exists and some AccountNumber row carries the bank's code, it raises ConflictError;
  an error result carries no new store, so the bank row stays as it was. When the
  bank exists and no AccountNumber row carries its code, the rows with that id are
  removed, the other tables are kept, and \<open>getBankById\<close> then returns nothing.
\<close>

theorem deleteBank_blocked_by_reference:
  "(getBankById st bid = None \<longrightarrow> deleteBank st bid = Inl (NotFoundError ''Bank not found''))
   \<and> (\<forall>bank. getBankById st bid = Some bank
          \<and> (\<exists>a \<in> set (accountNumbers st). an_bankCode a = b_code bank) \<longrightarrow>
        deleteBank st bid =
          Inl (ConflictError ''Cannot delete bank. It is referenced by account numbers.''))
   \<and> (\<forall>bank. getBankById st bid = Some bank
          \<and> (\<forall>a \<in> set (accountNumbers st). an_bankCode a \<noteq> b_code bank) \<longrightarrow>
        (\<exists>st'. deleteBank st bid = Inr st'
           \<and> getBankById st' bid = None
           \<and> banks st' = filter (\<lambda>b. b_id b \<noteq> bid) (banks st)
           \<and> accountNumbers st' = accountNumbers st
           \<and> users st' = users st \<and> userRefreshTokens st' = userRefreshTokens st
           \<and> colors st' = colors st))"
proof (intro conjI impI allI)
  assume "getBankById st bid = None"
  then show "deleteBank st bid = Inl (NotFoundError ''Bank not found'')"
    by (simp add: deleteBank_def getBankById_def)
next
  fix bank
  assume h: "getBankById st bid = Some bank
             \<and> (\<exists>a \<in> set (accountNumbers st). an_bankCode a = b_code bank)"
  then have "filter (\<lambda>a. an_bankCode a = b_code bank) (accountNumbers st) \<noteq> []"
    by (simp add: filter_empty_conv)
  with h show "deleteBank st bid =
      Inl (ConflictError ''Cannot delete bank. It is referenced by account numbers.'')"
    by (simp add: deleteBank_def getBankById_def)
next
  fix bank
  assume h: "getBankById st bid = Some bank
             \<and> (\<forall>a \<in> set (accountNumbers st). an_bankCode a \<noteq> b_code bank)"
  then have "filter (\<lambda>a. an_bankCode a = b_code bank) (accountNumbers st) = []"
    by (simp add: filter_empty_conv)
  with h have "deleteBank st bid = Inr (st\<lparr> banks := filter (\<lambda>b. b_id b \<noteq> bid) (banks st) \<rparr>)"
    by (simp add: deleteBank_def getBankById_def)
  then show "\<exists>st'. deleteBank st bid = Inr st'
           \<and> getBankById st' bid = None
           \<and> banks st' = filter (\<lambda>b. b_id b \<noteq> bid) (banks st)
           \<and> accountNumbers st' = accountNumbers st
           \<and> users st' = users st \<and> userRefreshTokens st' = userRefreshTokens st
           \<and> colors st' = colors st"
    by (simp add: getBankById_def find_filter_neq_None)
qed

theorem deleteBank_blocked_by_reference_witness:
  "getBankById ex_db_empty 1 = None
   \<and> deleteBank ex_db_empty 1 = Inl (NotFoundError ''Bank not found'')
   \<and> getBankById ex_db_bank_used 1 = Some ex_bank
   \<and> (\<exists>a \<in> set (accountNumbers ex_db_bank_used). an_bankCode a = b_code ex_bank)
   \<and> deleteBank ex_db_bank_used 1 =
        Inl (ConflictError ''Cannot delete bank. It is referenced by account numbers.'')
   \<and> getBankById ex_db_bank 1 = Some ex_bank
   \<and> \<not> (\<exists>a \<in> set (accountNumbers ex_db_bank). an_bankCode a = b_code ex_bank)
   \<and> (\<exists>st'. deleteBank ex_db_bank 1 = Inr st' \<and> getBankById st' 1 = None)"
proof -
  have a: "getBankById ex_db_empty 1 = None"
    by (simp add: getBankById_def ex_db_empty_def)
  have b: "getBankById ex_db_bank_used 1 = Some ex_bank
           \<and> (\<exists>a \<in> set (accountNumbers ex_db_bank_used). an_bankCode a = b_code ex_bank)"
    by (simp add: getBankById_def ex_db_bank_used_def ex_bank_def ex_account_def)
  have c: "getBankById ex_db_bank 1 = Some ex_bank
           \<and> (\<forall>a \<in> set (accountNumbers ex_db_bank). an_bankCode a \<noteq> b_code ex_bank)"
    by (simp add: getBankById_def ex_db_bank_def ex_bank_def)
  from deleteBank_blocked_by_reference [of ex_db_empty 1]
       deleteBank_blocked_by_reference [of ex_db_bank_used 1]
       deleteBank_blocked_by_reference [of ex_db_bank 1] a b c
  show ?thesis by blast
qed

section \<open>The uniqueness pre-check of create\<close>











section \<open>Registration\<close>

lemma register_Inr:
  assumes "register e st userData = Inr (resp, st')"
  shows "resp = selectUser
                  \<lparr> u_id = autoId e, u_role = rq_role userData, u_code = rq_code userData,
                    u_name = rq_name userData, u_email = rq_email userData,
                    u_username = rq_username userData, u_phone = rq_phone userData,
                    u_address = rq_address userData,
                    u_password = hashPassword (salt e) (rq_password userData),
                    u_expenseLimit = Some (or_zero (rq_expenseLimit userData)),
                    u_discountLimit = Some (or_zero (rq_discountLimit userData)),
                    u_point = Some 0, u_balance = Some 0,
                    u_createdAt = now e, u_updatedAt = now e \<rparr>
       \<and> st' = st\<lparr> users := users st @
                  [\<lparr> u_id = autoId e, u_role = rq_role userData, u_code = rq_code userData,
                    u_name = rq_name userData, u_email = rq_email userData,
                    u_username = rq_username userData, u_phone = rq_phone userData,
                    u_address = rq_address userData,
                    u_password = hashPassword (salt e) (rq_password userData),
                    u_expenseLimit = Some (or_zero (rq_expenseLimit userData)),
                    u_discountLimit = Some (or_zero (rq_discountLimit userData)),
                    u_point = Some 0, u_balance = Some 0,
                    u_createdAt = now e, u_updatedAt = now e \<rparr>] \<rparr>"
  using assms
  by (auto simp add: register_def Let_def prisma_user_create_def
        split: option.splits if_splits prod.splits sum.splits)

lemma or_zero_supplied: "or_zero v = (case v of None \<Rightarrow> 0 | Some n \<Rightarrow> n)"
  by (simp add: or_zero_def split: option.splits)

text \<open>
  Claim C7, as the code has it. After a successful \<open>register\<close> the store holds exactly
  one more User row; its \<open>point\<close> and \<open>balance\<close> are 0, its \<open>expenseLimit\<close> and
  \<open>discountLimit\<close> are the supplied values, or 0 where none was supplied; the stored
  password is the salted hash of the supplied password and verifies it; and the
  returned user is the projection of that row onto the columns other than the
  password (the returned type has no password field).
\<close>

theorem register_inserts_defaults:
  "register e st userData = Inr (resp, st') \<Longrightarrow>
     (\<exists>row. users st' = users st @ [row]
        \<and> u_point row = Some 0 \<and> u_balance row = Some 0
        \<and> u_expenseLimit row = Some (case rq_expenseLimit userData of None \<Rightarrow> 0 | Some n \<Rightarrow> n)
        \<and> u_discountLimit row = Some (case rq_discountLimit userData of None \<Rightarrow> 0 | Some n \<Rightarrow> n)
        \<and> u_password row = hashPassword (salt e) (rq_password userData)
        \<and> verifyPassword (rq_password userData) (u_password row)
        \<and> resp = selectUser row)"
proof -
  assume "register e st userData = Inr (resp, st')"
  from register_Inr [OF this] show ?thesis
    by (simp add: or_zero_supplied hashPassword_def)
qed

lemma register_ex:
  "register ex_env ex_db_one ex_register
     = Inr (selectUser ex_user2, ex_db_one\<lparr> users := [ex_user, ex_user2] \<rparr>)"
  by (simp add: register_def prisma_user_create_def validatePasswordStrength_def
        isLower_def isUpper_def isDigit_def isSpecial_def hashPassword_def or_zero_def
        ex_env_def ex_db_one_def ex_user_def ex_user2_def ex_register_def Let_def)

text \<open>A registration that supplies no limits: all four amounts are 0.\<close>

theorem register_inserts_defaults_witness:
  "register ex_env ex_db_one (ex_register\<lparr> rq_expenseLimit := None \<rparr>)
     = Inr (selectUser (ex_user2\<lparr> u_expenseLimit := Some 0 \<rparr>),
            ex_db_one\<lparr> users := [ex_user, ex_user2\<lparr> u_expenseLimit := Some 0 \<rparr>] \<rparr>)
   \<and> (\<exists>row. users (ex_db_one\<lparr> users := [ex_user, ex_user2\<lparr> u_expenseLimit := Some 0 \<rparr>] \<rparr>)
               = users ex_db_one @ [row]
        \<and> u_point row = Some 0 \<and> u_balance row = Some 0
        \<and> u_expenseLimit row = Some 0 \<and> u_discountLimit row = Some 0
        \<and> verifyPassword ''Rahasia#9'' (u_password row))"
proof -
  have r: "register ex_env ex_db_one (ex_register\<lparr> rq_expenseLimit := None \<rparr>)
     = Inr (selectUser (ex_user2\<lparr> u_expenseLimit := Some 0 \<rparr>),
            ex_db_one\<lparr> users := [ex_user, ex_user2\<lparr> u_expenseLimit := Some 0 \<rparr>] \<rparr>)"
    by (simp add: register_def prisma_user_create_def validatePasswordStrength_def
        isLower_def isUpper_def isDigit_def isSpecial_def hashPassword_def or_zero_def
        ex_env_def ex_db_one_def ex_user_def ex_user2_def ex_register_def Let_def)
  from register_inserts_defaults [OF r] r show ?thesis
    by (simp add: ex_register_def hashPassword_def)
qed

text \<open>
  Where the claim as stated fails: a successful registration that supplies an expense
  limit of 500 stores 500.
\<close>

theorem register_counterexample:
  "register ex_env ex_db_one ex_register
     = Inr (selectUser ex_user2, ex_db_one\<lparr> users := [ex_user, ex_user2] \<rparr>)
   \<and> u_expenseLimit (last (users (ex_db_one\<lparr> users := [ex_user, ex_user2] \<rparr>))) = Some 500"
  by (simp add: register_ex) (simp add: ex_user2_def)

section \<open>Refresh tokens: general facts\<close>

lemma verifyToken_Inr: "verifyToken e tok = Inr decoded \<Longrightarrow> decoded = t_payload tok"
  by (simp add: verifyToken_def split: if_splits)

lemma refreshToken_try_Inr:
  assumes "refreshToken_try e st tok = Inr (pair, st')"
  shows "\<exists>sel user.
           verifyToken e tok = Inr (t_payload tok)
         \<and> findFirstActive st (p_userId (t_payload tok)) = Some sel
         \<and> verifyPassword tok (rt_hashedToken sel)
         \<and> find (\<lambda>u. u_id u = rt_userId sel) (users st) = Some user
         \<and> generateTokenPair e (tokenPayload user) = Inr pair
         \<and> st' = st\<lparr> userRefreshTokens :=
                       revokeById e (rt_id sel) (userRefreshTokens st)
                       @ [newRefreshTokenRow e (hashPassword (salt e) (refreshToken pair))
                            (u_id user)] \<rparr>"
proof -
  from assms obtain decoded where d: "verifyToken e tok = Inr decoded"
    by (cases "verifyToken e tok") (simp_all add: refreshToken_try_def)
  then have dp: "decoded = t_payload tok" by (rule verifyToken_Inr)
  from assms d obtain sel where s: "findFirstActive st (p_userId decoded) = Some sel"
    by (cases "findFirstActive st (p_userId decoded)") (simp_all add: refreshToken_try_def)
  from assms d s obtain user where u: "find (\<lambda>u. u_id u = rt_userId sel) (users st) = Some user"
    by (cases "find (\<lambda>u. u_id u = rt_userId sel) (users st)") (simp_all add: refreshToken_try_def)
  from assms d s u have v: "verifyPassword tok (rt_hashedToken sel)"
    by (simp add: refreshToken_try_def split: if_splits)
  from assms d s v u obtain newTokens where g: "generateTokenPair e (tokenPayload user) = Inr newTokens"
    by (cases "generateTokenPair e (tokenPayload user)") (simp_all add: refreshToken_try_def)
  from assms d s v u g have "pair = newTokens
      \<and> st' = st\<lparr> userRefreshTokens :=
                       revokeById e (rt_id sel) (userRefreshTokens st)
                       @ [newRefreshTokenRow e (hashPassword (salt e) (refreshToken newTokens))
                            (u_id user)] \<rparr>"
    by (simp add: refreshToken_try_def Let_def eq_commute)
  with d dp s v u g show ?thesis by auto
qed

lemma refreshToken_svc_Inr:
  "refreshToken_svc e st tok = Inr r \<Longrightarrow> refreshToken_try e st tok = Inr r"
  by (simp add: refreshToken_svc_def split: sum.splits error.splits)

lemma refreshToken_svc_Inl:
  "refreshToken_svc e st tok = Inl err \<Longrightarrow> \<exists>m. err = AuthenticationError m"
  by (auto simp add: refreshToken_svc_def split: sum.splits error.splits)

lemma refreshToken_svc_not_selected:
  assumes "\<And>sel. findFirstActive st (p_userId (t_payload tok)) = Some sel
             \<Longrightarrow> \<not> verifyPassword tok (rt_hashedToken sel)"
  shows "\<exists>m. refreshToken_svc e st tok = Inl (AuthenticationError m)"
proof (cases "refreshToken_svc e st tok")
  case (Inl err)
  with refreshToken_svc_Inl [OF Inl] show ?thesis by auto
next
  case (Inr r)
  obtain pair st' where r: "r = (pair, st')" by (cases r)
  from Inr r have "refreshToken_try e st tok = Inr (pair, st')"
    by (simp add: refreshToken_svc_Inr)
  from refreshToken_try_Inr [OF this] assms show ?thesis by blast
qed





lemma revokeById_other:
  "i < length rows \<Longrightarrow> rt_id (rows ! i) \<noteq> rid \<Longrightarrow> revokeById e rid rows ! i = rows ! i"
  by (simp add: revokeById_def)


lemma revokeAllActive_length: "length (revokeAllActive e uid rows) = length rows"
  by (simp add: revokeAllActive_def)

lemma revokeAllActive_nth:
  "i < length rows \<Longrightarrow>
     revokeAllActive e uid rows ! i =
       (if rt_userId (rows ! i) = uid \<and> \<not> rt_revoked (rows ! i)
        then (rows ! i)\<lparr> rt_revoked := True, rt_updatedAt := now e \<rparr> else rows ! i)"
  by (simp add: revokeAllActive_def)

lemma revokeAllActive_none_active:
  assumes "r \<in> set (revokeAllActive e uid rows)" and "rt_userId r = uid"
  shows "rt_revoked r"
proof -
  from assms(1) obtain x where
    x: "r = (if rt_userId x = uid \<and> \<not> rt_revoked x
             then x\<lparr> rt_revoked := True, rt_updatedAt := now e \<rparr> else x)"
    unfolding revokeAllActive_def set_map by blast
  show ?thesis
  proof (cases "rt_userId x = uid \<and> \<not> rt_revoked x")
    case True
    with x show ?thesis by simp
  next
    case False
    with x have "r = x" by simp
    with False assms(2) show ?thesis by simp
  qed
qed

lemma findFirstActive_revokeAllActive:
  "findFirstActive (st\<lparr> userRefreshTokens := revokeAllActive e uid rows \<rparr>) uid = None"
  unfolding findFirstActive_def find_None_iff
  using revokeAllActive_none_active by fastforce

section \<open>Changing the password\<close>

lemma find_map_update_user:
  assumes "\<And>u. u_id (f u) = u_id u"
  shows "find (\<lambda>u. u_id u = uid) (map (\<lambda>u. if u_id u = uid then f u else u) us) =
     map_option f (find (\<lambda>u. u_id u = uid) us)"
  using assms by (induction us) auto

lemma changePassword_Inr:
  assumes "changePassword e st userId passwordData = Inr st'"
  shows "\<exists>user. find (\<lambda>u. u_id u = userId) (users st) = Some user
         \<and> st' = st\<lparr> users :=
                      map (\<lambda>u. if u_id u = userId
                                then u\<lparr> u_password := hashPassword (salt e) (newPassword passwordData),
                                       u_updatedAt := now e \<rparr>
                                else u) (users st),
                     userRefreshTokens := revokeAllActive e userId (userRefreshTokens st) \<rparr>"
proof -
  from assms obtain user where u: "find (\<lambda>u. u_id u = userId) (users st) = Some user"
    by (cases "find (\<lambda>u. u_id u = userId) (users st)") (simp_all add: changePassword_def)
  obtain isValid errors where
    v: "validatePasswordStrength (newPassword passwordData) = (isValid, errors)"
    by (cases "validatePasswordStrength (newPassword passwordData)")
  from assms u v show ?thesis
    by (simp add: changePassword_def Let_def split: if_splits)
qed

text \<open>
  Claim C5. After a successful \<open>changePassword\<close> the stored hash of the user verifies
  the new password. The refresh-token table has the same rows in the same places;
  every row of the user is revoked, the rows of other users are as they were. Hence
  \<open>refreshToken\<close> raises an AuthenticationError, at any later time, for every token
  whose payload names the user, which the tokens issued to the user before the call do.
\<close>

theorem changePassword_revokes_sessions:
  "changePassword e st userId passwordData = Inr st' \<Longrightarrow>
     (\<exists>user. find (\<lambda>u. u_id u = userId) (users st') = Some user
        \<and> verifyPassword (newPassword passwordData) (u_password user))
   \<and> length (userRefreshTokens st') = length (userRefreshTokens st)
   \<and> (\<forall>i < length (userRefreshTokens st).
         rt_id (userRefreshTokens st' ! i) = rt_id (userRefreshTokens st ! i)
       \<and> rt_userId (userRefreshTokens st' ! i) = rt_userId (userRefreshTokens st ! i)
       \<and> rt_hashedToken (userRefreshTokens st' ! i) = rt_hashedToken (userRefreshTokens st ! i)
       \<and> (rt_userId (userRefreshTokens st ! i) = userId \<longrightarrow> rt_revoked (userRefreshTokens st' ! i))
       \<and> (rt_userId (userRefreshTokens st ! i) \<noteq> userId \<longrightarrow>
            userRefreshTokens st' ! i = userRefreshTokens st ! i))
   \<and> (\<forall>e' (tok :: token). p_userId (t_payload tok) = userId \<longrightarrow>
         (\<exists>m. refreshToken_svc e' st' tok = Inl (AuthenticationError m)))"
proof -
  assume a: "changePassword e st userId passwordData = Inr st'"
  let ?h = "hashPassword (salt e) (newPassword passwordData)"
  let ?f = "\<lambda>u. u\<lparr> u_password := ?h, u_updatedAt := now e \<rparr>"
  from changePassword_Inr [OF a] obtain user where
    u: "find (\<lambda>u. u_id u = userId) (users st) = Some user" and
    st': "st' = st\<lparr> users := map (\<lambda>u. if u_id u = userId then ?f u else u) (users st),
                    userRefreshTokens := revokeAllActive e userId (userRefreshTokens st) \<rparr>"
    by blast
  have us: "users st' = map (\<lambda>u. if u_id u = userId then ?f u else u) (users st)"
    by (simp add: st')
  have toks: "userRefreshTokens st' = revokeAllActive e userId (userRefreshTokens st)"
    by (simp add: st')
  have "find (\<lambda>u. u_id u = userId) (users st') = Some (?f user)"
    unfolding us by (subst find_map_update_user) (simp_all add: u)
  moreover have "verifyPassword (newPassword passwordData) (u_password (?f user))"
    by (simp add: hashPassword_def)
  ultimately have p1: "\<exists>user. find (\<lambda>u. u_id u = userId) (users st') = Some user
        \<and> verifyPassword (newPassword passwordData) (u_password user)"
    by blast
  have p2: "length (userRefreshTokens st') = length (userRefreshTokens st)"
    by (simp add: toks revokeAllActive_length)
  have p3: "\<forall>i < length (userRefreshTokens st).
         rt_id (userRefreshTokens st' ! i) = rt_id (userRefreshTokens st ! i)
       \<and> rt_userId (userRefreshTokens st' ! i) = rt_userId (userRefreshTokens st ! i)
       \<and> rt_hashedToken (userRefreshTokens st' ! i) = rt_hashedToken (userRefreshTokens st ! i)
       \<and> (rt_userId (userRefreshTokens st ! i) = userId \<longrightarrow> rt_revoked (userRefreshTokens st' ! i))
       \<and> (rt_userId (userRefreshTokens st ! i) \<noteq> userId \<longrightarrow>
            userRefreshTokens st' ! i = userRefreshTokens st ! i)"
    by (simp add: toks revokeAllActive_nth)
  have none: "findFirstActive st' userId = None"
    unfolding st' findFirstActive_def find_None_iff
    using revokeAllActive_none_active by fastforce
  have p4: "\<forall>e' (tok :: token). p_userId (t_payload tok) = userId \<longrightarrow>
         (\<exists>m. refreshToken_svc e' st' tok = Inl (AuthenticationError m))"
  proof (intro allI impI)
    fix e' and tok :: token
    assume "p_userId (t_payload tok) = userId"
    with none have "findFirstActive st' (p_userId (t_payload tok)) = None" by simp
    then show "\<exists>m. refreshToken_svc e' st' tok = Inl (AuthenticationError m)"
      by (intro refreshToken_svc_not_selected) simp
  qed
  from p1 p2 p3 p4 show ?thesis by blast
qed

lemma changePassword_ex:
  "changePassword ex_env ex_db_two 1 ex_change = Inr ex_db_two_changed"
  by (simp add: changePassword_def validatePasswordStrength_def
        isLower_def isUpper_def isDigit_def isSpecial_def hashPassword_def revokeAllActive_def
        ex_env_def ex_db_two_def ex_db_two_changed_def ex_user_def ex_row_def ex_change_def Let_def)

text \<open>
  The user with two sessions changes the password at second 2000: both refresh tokens,
  still unexpired, are refused afterwards (here at second 3000).
\<close>

theorem changePassword_revokes_sessions_witness:
  "changePassword ex_env ex_db_two 1 ex_change = Inr ex_db_two_changed
   \<and> p_userId (t_payload ex_tokA) = 1 \<and> p_userId (t_payload ex_tokC) = 1
   \<and> (\<exists>m. refreshToken_svc ex_env2 ex_db_two_changed ex_tokA = Inl (AuthenticationError m))
   \<and> (\<exists>m. refreshToken_svc ex_env2 ex_db_two_changed ex_tokC = Inl (AuthenticationError m))
   \<and> (\<exists>user. find (\<lambda>u. u_id u = 1) (users ex_db_two_changed) = Some user
         \<and> verifyPassword ''N3w-Pass!'' (u_password user))"
proof -
  have p: "p_userId (t_payload ex_tokA) = 1" "p_userId (t_payload ex_tokC) = 1"
    by (simp_all add: ex_tokA_def ex_tokC_def ex_payload_def)
  have n: "newPassword ex_change = ''N3w-Pass!''"
    by (simp add: ex_change_def)
  from changePassword_revokes_sessions [OF changePassword_ex] p n changePassword_ex
  show ?thesis by simp
qed

section \<open>Refresh-token rotation\<close>




text \<open>
  The store with two rows for one token is what two logins of the user in the same
  second leave: the token is a function of the payload and the second.
\<close>

lemma login_twice_same_second:
  "login (ex_env\<lparr> now := 1000, salt := 5, uuid := ''t1'' \<rparr>)
         (ex_db_one\<lparr> userRefreshTokens := [] \<rparr>)
         \<lparr> lq_email = ''ana@x.id'', lq_password = ''Passw0rd!'' \<rparr>
     = Inr (\<lparr> lr_user = selectUser ex_user,
              lr_tokens = \<lparr> accessToken = ex_tokA\<lparr> t_exp := 87400 \<rparr>, refreshToken = ex_tokA \<rparr> \<rparr>,
            ex_db_one)"
  "login (ex_env\<lparr> now := 1000, salt := 6, uuid := ''t2'' \<rparr>) ex_db_one
         \<lparr> lq_email = ''ana@x.id'', lq_password = ''Passw0rd!'' \<rparr>
     = Inr (\<lparr> lr_user = selectUser ex_user,
              lr_tokens = \<lparr> accessToken = ex_tokA\<lparr> t_exp := 87400 \<rparr>, refreshToken = ex_tokA \<rparr> \<rparr>,
            ex_db_dup)"
  by (simp_all add: login_def generateTokenPair_def generateAccessToken_def
        generateRefreshToken_def jwt_sign_def tokenPayload_def newRefreshTokenRow_def
        hashPassword_def ex_env_def ex_db_one_def ex_db_dup_def ex_user_def ex_row_def
        ex_tokA_def ex_payload_def Let_def)

text \<open>
  A refresh in the very second the presented token was issued returns the same token
  again, which then refreshes once more.
\<close>

lemma refreshToken_same_second:
  "refreshToken_svc (ex_env\<lparr> now := 1000 \<rparr>) ex_db_one ex_tokA
     = Inr (\<lparr> accessToken = ex_tokA\<lparr> t_exp := 87400 \<rparr>, refreshToken = ex_tokA \<rparr>,
            ex_db_one\<lparr> userRefreshTokens :=
              [(ex_row ''t1'' 5 ex_tokA 1000)\<lparr> rt_revoked := True, rt_updatedAt := 1000 \<rparr>,
               ex_row ''t3'' 7 ex_tokA 1000] \<rparr>)"
  "\<not> isl (refreshToken_svc ex_env2
            (ex_db_one\<lparr> userRefreshTokens :=
              [(ex_row ''t1'' 5 ex_tokA 1000)\<lparr> rt_revoked := True, rt_updatedAt := 1000 \<rparr>,
               ex_row ''t3'' 7 ex_tokA 1000] \<rparr>) ex_tokA)"
  by (simp_all add: refreshToken_svc_def refreshToken_try_def verifyToken_def jwt_verify_def
        findFirstActive_def generateTokenPair_def generateAccessToken_def
        generateRefreshToken_def jwt_sign_def tokenPayload_def revokeById_def
        newRefreshTokenRow_def hashPassword_def
        ex_env_def ex_env2_def ex_db_one_def ex_user_def ex_row_def ex_tokA_def
        ex_payload_def Let_def)




section \<open>Refresh and logout look at one row\<close>







section \<open>Logout\<close>

text \<open>What \<open>logout\<close> does do: it never raises, and without a token it revokes every active row of the user.\<close>

lemma logout_never_raises: "\<exists>st'. logout e st userId tokOpt = Inr st'"
  by (simp add: logout_def split: option.splits)

lemma logout_all:
  "logout e st userId None
     = Inr (st\<lparr> userRefreshTokens := revokeAllActive e userId (userRefreshTokens st) \<rparr>)"
  by (simp add: logout_def)

lemma logout_token_first_row:
  "findFirstActive st userId = Some sel \<Longrightarrow> verifyPassword tok (rt_hashedToken sel) \<Longrightarrow>
     logout e st userId (Some tok)
       = Inr (st\<lparr> userRefreshTokens := revokeById e (rt_id sel) (userRefreshTokens st) \<rparr>)"
  by (simp add: logout_def)



end
